theory Spec2Isabelle
  imports Main
begin

section \<open>Strings\<close>

text \<open>
  A Python \<open>str\<close> is a sequence of Unicode code points; the status literals of the
  program are Cyrillic, so a string is modelled as the list of its code points.
  \<open>ustr\<close> writes an ASCII literal as such a list.
\<close>

type_synonym str = "nat list"

definition ustr :: "string \<Rightarrow> str" where
  "ustr s = map of_char s"

text \<open>
  \<open>str.lower()\<close> follows the Unicode character database. Three of its tables are needed,
  given here as in Unicode 14.0 (the database of CPython 3.11): the simple lower-case
  mapping, as runs \<open>(lo, hi, step, target)\<close> that send \<open>lo\<close>, \<open>lo + step\<close>, ... up to
  \<open>hi\<close> to \<open>target\<close>, \<open>target + step\<close>, ...; and the code points with the properties
  Cased and Case_Ignorable, as ranges \<open>(lo, hi)\<close>.
\<close>

definition lowercase_table :: "(nat \<times> nat \<times> nat \<times> nat) list" where
  "lowercase_table =
    [(0x41, 0x5A, 1, 0x61), (0xC0, 0xD6, 1, 0xE0), (0xD8, 0xDE, 1, 0xF8),
     (0x100, 0x12E, 2, 0x101), (0x132, 0x136, 2, 0x133), (0x139, 0x147, 2, 0x13A),
     (0x14A, 0x176, 2, 0x14B), (0x178, 0x178, 1, 0xFF), (0x179, 0x17D, 2, 0x17A),
     (0x181, 0x181, 1, 0x253), (0x182, 0x184, 2, 0x183), (0x186, 0x186, 1, 0x254),
     (0x187, 0x187, 1, 0x188), (0x189, 0x18A, 1, 0x256), (0x18B, 0x18B, 1, 0x18C),
     (0x18E, 0x18E, 1, 0x1DD), (0x18F, 0x18F, 1, 0x259), (0x190, 0x190, 1, 0x25B),
     (0x191, 0x191, 1, 0x192), (0x193, 0x193, 1, 0x260), (0x194, 0x194, 1, 0x263),
     (0x196, 0x196, 1, 0x269), (0x197, 0x197, 1, 0x268), (0x198, 0x198, 1, 0x199),
     (0x19C, 0x19C, 1, 0x26F), (0x19D, 0x19D, 1, 0x272), (0x19F, 0x19F, 1, 0x275),
     (0x1A0, 0x1A4, 2, 0x1A1), (0x1A6, 0x1A6, 1, 0x280), (0x1A7, 0x1A7, 1, 0x1A8),
     (0x1A9, 0x1A9, 1, 0x283), (0x1AC, 0x1AC, 1, 0x1AD), (0x1AE, 0x1AE, 1, 0x288),
     (0x1AF, 0x1AF, 1, 0x1B0), (0x1B1, 0x1B2, 1, 0x28A), (0x1B3, 0x1B5, 2, 0x1B4),
     (0x1B7, 0x1B7, 1, 0x292), (0x1B8, 0x1B8, 1, 0x1B9), (0x1BC, 0x1BC, 1, 0x1BD),
     (0x1C4, 0x1C4, 1, 0x1C6), (0x1C5, 0x1C5, 1, 0x1C6), (0x1C7, 0x1C7, 1, 0x1C9),
     (0x1C8, 0x1C8, 1, 0x1C9), (0x1CA, 0x1CA, 1, 0x1CC), (0x1CB, 0x1DB, 2, 0x1CC),
     (0x1DE, 0x1EE, 2, 0x1DF), (0x1F1, 0x1F1, 1, 0x1F3), (0x1F2, 0x1F4, 2, 0x1F3),
     (0x1F6, 0x1F6, 1, 0x195), (0x1F7, 0x1F7, 1, 0x1BF), (0x1F8, 0x21E, 2, 0x1F9),
     (0x220, 0x220, 1, 0x19E), (0x222, 0x232, 2, 0x223), (0x23A, 0x23A, 1, 0x2C65),
     (0x23B, 0x23B, 1, 0x23C), (0x23D, 0x23D, 1, 0x19A), (0x23E, 0x23E, 1, 0x2C66),
     (0x241, 0x241, 1, 0x242), (0x243, 0x243, 1, 0x180), (0x244, 0x244, 1, 0x289),
     (0x245, 0x245, 1, 0x28C), (0x246, 0x24E, 2, 0x247), (0x370, 0x372, 2, 0x371),
     (0x376, 0x376, 1, 0x377), (0x37F, 0x37F, 1, 0x3F3), (0x386, 0x386, 1, 0x3AC),
     (0x388, 0x38A, 1, 0x3AD), (0x38C, 0x38C, 1, 0x3CC), (0x38E, 0x38F, 1, 0x3CD),
     (0x391, 0x3A1, 1, 0x3B1), (0x3A3, 0x3AB, 1, 0x3C3), (0x3CF, 0x3CF, 1, 0x3D7),
     (0x3D8, 0x3EE, 2, 0x3D9), (0x3F4, 0x3F4, 1, 0x3B8), (0x3F7, 0x3F7, 1, 0x3F8),
     (0x3F9, 0x3F9, 1, 0x3F2), (0x3FA, 0x3FA, 1, 0x3FB), (0x3FD, 0x3FF, 1, 0x37B),
     (0x400, 0x40F, 1, 0x450), (0x410, 0x42F, 1, 0x430), (0x460, 0x480, 2, 0x461),
     (0x48A, 0x4BE, 2, 0x48B), (0x4C0, 0x4C0, 1, 0x4CF), (0x4C1, 0x4CD, 2, 0x4C2),
     (0x4D0, 0x52E, 2, 0x4D1), (0x531, 0x556, 1, 0x561), (0x10A0, 0x10C5, 1, 0x2D00),
     (0x10C7, 0x10C7, 1, 0x2D27), (0x10CD, 0x10CD, 1, 0x2D2D), (0x13A0, 0x13EF, 1, 0xAB70),
     (0x13F0, 0x13F5, 1, 0x13F8), (0x1C90, 0x1CBA, 1, 0x10D0), (0x1CBD, 0x1CBF, 1, 0x10FD),
     (0x1E00, 0x1E94, 2, 0x1E01), (0x1E9E, 0x1E9E, 1, 0xDF), (0x1EA0, 0x1EFE, 2, 0x1EA1),
     (0x1F08, 0x1F0F, 1, 0x1F00), (0x1F18, 0x1F1D, 1, 0x1F10), (0x1F28, 0x1F2F, 1, 0x1F20),
     (0x1F38, 0x1F3F, 1, 0x1F30), (0x1F48, 0x1F4D, 1, 0x1F40), (0x1F59, 0x1F5F, 2, 0x1F51),
     (0x1F68, 0x1F6F, 1, 0x1F60), (0x1F88, 0x1F8F, 1, 0x1F80), (0x1F98, 0x1F9F, 1, 0x1F90),
     (0x1FA8, 0x1FAF, 1, 0x1FA0), (0x1FB8, 0x1FB9, 1, 0x1FB0), (0x1FBA, 0x1FBB, 1, 0x1F70),
     (0x1FBC, 0x1FBC, 1, 0x1FB3), (0x1FC8, 0x1FCB, 1, 0x1F72), (0x1FCC, 0x1FCC, 1, 0x1FC3),
     (0x1FD8, 0x1FD9, 1, 0x1FD0), (0x1FDA, 0x1FDB, 1, 0x1F76), (0x1FE8, 0x1FE9, 1, 0x1FE0),
     (0x1FEA, 0x1FEB, 1, 0x1F7A), (0x1FEC, 0x1FEC, 1, 0x1FE5), (0x1FF8, 0x1FF9, 1, 0x1F78),
     (0x1FFA, 0x1FFB, 1, 0x1F7C), (0x1FFC, 0x1FFC, 1, 0x1FF3), (0x2126, 0x2126, 1, 0x3C9),
     (0x212A, 0x212A, 1, 0x6B), (0x212B, 0x212B, 1, 0xE5), (0x2132, 0x2132, 1, 0x214E),
     (0x2160, 0x216F, 1, 0x2170), (0x2183, 0x2183, 1, 0x2184), (0x24B6, 0x24CF, 1, 0x24D0),
     (0x2C00, 0x2C2F, 1, 0x2C30), (0x2C60, 0x2C60, 1, 0x2C61), (0x2C62, 0x2C62, 1, 0x26B),
     (0x2C63, 0x2C63, 1, 0x1D7D), (0x2C64, 0x2C64, 1, 0x27D), (0x2C67, 0x2C6B, 2, 0x2C68),
     (0x2C6D, 0x2C6D, 1, 0x251), (0x2C6E, 0x2C6E, 1, 0x271), (0x2C6F, 0x2C6F, 1, 0x250),
     (0x2C70, 0x2C70, 1, 0x252), (0x2C72, 0x2C72, 1, 0x2C73), (0x2C75, 0x2C75, 1, 0x2C76),
     (0x2C7E, 0x2C7F, 1, 0x23F), (0x2C80, 0x2CE2, 2, 0x2C81), (0x2CEB, 0x2CED, 2, 0x2CEC),
     (0x2CF2, 0x2CF2, 1, 0x2CF3), (0xA640, 0xA66C, 2, 0xA641), (0xA680, 0xA69A, 2, 0xA681),
     (0xA722, 0xA72E, 2, 0xA723), (0xA732, 0xA76E, 2, 0xA733), (0xA779, 0xA77B, 2, 0xA77A),
     (0xA77D, 0xA77D, 1, 0x1D79), (0xA77E, 0xA786, 2, 0xA77F), (0xA78B, 0xA78B, 1, 0xA78C),
     (0xA78D, 0xA78D, 1, 0x265), (0xA790, 0xA792, 2, 0xA791), (0xA796, 0xA7A8, 2, 0xA797),
     (0xA7AA, 0xA7AA, 1, 0x266), (0xA7AB, 0xA7AB, 1, 0x25C), (0xA7AC, 0xA7AC, 1, 0x261),
     (0xA7AD, 0xA7AD, 1, 0x26C), (0xA7AE, 0xA7AE, 1, 0x26A), (0xA7B0, 0xA7B0, 1, 0x29E),
     (0xA7B1, 0xA7B1, 1, 0x287), (0xA7B2, 0xA7B2, 1, 0x29D), (0xA7B3, 0xA7B3, 1, 0xAB53),
     (0xA7B4, 0xA7C2, 2, 0xA7B5), (0xA7C4, 0xA7C4, 1, 0xA794), (0xA7C5, 0xA7C5, 1, 0x282),
     (0xA7C6, 0xA7C6, 1, 0x1D8E), (0xA7C7, 0xA7C9, 2, 0xA7C8), (0xA7D0, 0xA7D0, 1, 0xA7D1),
     (0xA7D6, 0xA7D8, 2, 0xA7D7), (0xA7F5, 0xA7F5, 1, 0xA7F6), (0xFF21, 0xFF3A, 1, 0xFF41),
     (0x10400, 0x10427, 1, 0x10428), (0x104B0, 0x104D3, 1, 0x104D8), (0x10570, 0x1057A, 1, 0x10597),
     (0x1057C, 0x1058A, 1, 0x105A3), (0x1058C, 0x10592, 1, 0x105B3), (0x10594, 0x10595, 1, 0x105BB),
     (0x10C80, 0x10CB2, 1, 0x10CC0), (0x118A0, 0x118BF, 1, 0x118C0), (0x16E40, 0x16E5F, 1, 0x16E60),
     (0x1E900, 0x1E921, 1, 0x1E922)]"

definition cased_table :: "(nat \<times> nat) list" where
  "cased_table =
    [(0x41, 0x5A), (0x61, 0x7A), (0xAA, 0xAA), (0xB5, 0xB5), (0xBA, 0xBA),
     (0xC0, 0xD6), (0xD8, 0xF6), (0xF8, 0x1BA), (0x1BC, 0x1BF), (0x1C4, 0x293),
     (0x295, 0x2B8), (0x2C0, 0x2C1), (0x2E0, 0x2E4), (0x345, 0x345), (0x370, 0x373),
     (0x376, 0x377), (0x37A, 0x37D), (0x37F, 0x37F), (0x386, 0x386), (0x388, 0x38A),
     (0x38C, 0x38C), (0x38E, 0x3A1), (0x3A3, 0x3F5), (0x3F7, 0x481), (0x48A, 0x52F),
     (0x531, 0x556), (0x560, 0x588), (0x10A0, 0x10C5), (0x10C7, 0x10C7), (0x10CD, 0x10CD),
     (0x10D0, 0x10FA), (0x10FD, 0x10FF), (0x13A0, 0x13F5), (0x13F8, 0x13FD), (0x1C80, 0x1C88),
     (0x1C90, 0x1CBA), (0x1CBD, 0x1CBF), (0x1D00, 0x1DBF), (0x1E00, 0x1F15), (0x1F18, 0x1F1D),
     (0x1F20, 0x1F45), (0x1F48, 0x1F4D), (0x1F50, 0x1F57), (0x1F59, 0x1F59), (0x1F5B, 0x1F5B),
     (0x1F5D, 0x1F5D), (0x1F5F, 0x1F7D), (0x1F80, 0x1FB4), (0x1FB6, 0x1FBC), (0x1FBE, 0x1FBE),
     (0x1FC2, 0x1FC4), (0x1FC6, 0x1FCC), (0x1FD0, 0x1FD3), (0x1FD6, 0x1FDB), (0x1FE0, 0x1FEC),
     (0x1FF2, 0x1FF4), (0x1FF6, 0x1FFC), (0x2071, 0x2071), (0x207F, 0x207F), (0x2090, 0x209C),
     (0x2102, 0x2102), (0x2107, 0x2107), (0x210A, 0x2113), (0x2115, 0x2115), (0x2119, 0x211D),
     (0x2124, 0x2124), (0x2126, 0x2126), (0x2128, 0x2128), (0x212A, 0x212D), (0x212F, 0x2134),
     (0x2139, 0x2139), (0x213C, 0x213F), (0x2145, 0x2149), (0x214E, 0x214E), (0x2160, 0x217F),
     (0x2183, 0x2184), (0x24B6, 0x24E9), (0x2C00, 0x2CE4), (0x2CEB, 0x2CEE), (0x2CF2, 0x2CF3),
     (0x2D00, 0x2D25), (0x2D27, 0x2D27), (0x2D2D, 0x2D2D), (0xA640, 0xA66D), (0xA680, 0xA69D),
     (0xA722, 0xA787), (0xA78B, 0xA78E), (0xA790, 0xA7CA), (0xA7D0, 0xA7D1), (0xA7D3, 0xA7D3),
     (0xA7D5, 0xA7D9), (0xA7F5, 0xA7F6), (0xA7F8, 0xA7FA), (0xAB30, 0xAB5A), (0xAB5C, 0xAB68),
     (0xAB70, 0xABBF), (0xFB00, 0xFB06), (0xFB13, 0xFB17), (0xFF21, 0xFF3A), (0xFF41, 0xFF5A),
     (0x10400, 0x1044F), (0x104B0, 0x104D3), (0x104D8, 0x104FB), (0x10570, 0x1057A), (0x1057C, 0x1058A),
     (0x1058C, 0x10592), (0x10594, 0x10595), (0x10597, 0x105A1), (0x105A3, 0x105B1), (0x105B3, 0x105B9),
     (0x105BB, 0x105BC), (0x10780, 0x10780), (0x10783, 0x10785), (0x10787, 0x107B0), (0x107B2, 0x107BA),
     (0x10C80, 0x10CB2), (0x10CC0, 0x10CF2), (0x118A0, 0x118DF), (0x16E40, 0x16E7F), (0x1D400, 0x1D454),
     (0x1D456, 0x1D49C), (0x1D49E, 0x1D49F), (0x1D4A2, 0x1D4A2), (0x1D4A5, 0x1D4A6), (0x1D4A9, 0x1D4AC),
     (0x1D4AE, 0x1D4B9), (0x1D4BB, 0x1D4BB), (0x1D4BD, 0x1D4C3), (0x1D4C5, 0x1D505), (0x1D507, 0x1D50A),
     (0x1D50D, 0x1D514), (0x1D516, 0x1D51C), (0x1D51E, 0x1D539), (0x1D53B, 0x1D53E), (0x1D540, 0x1D544),
     (0x1D546, 0x1D546), (0x1D54A, 0x1D550), (0x1D552, 0x1D6A5), (0x1D6A8, 0x1D6C0), (0x1D6C2, 0x1D6DA),
     (0x1D6DC, 0x1D6FA), (0x1D6FC, 0x1D714), (0x1D716, 0x1D734), (0x1D736, 0x1D74E), (0x1D750, 0x1D76E),
     (0x1D770, 0x1D788), (0x1D78A, 0x1D7A8), (0x1D7AA, 0x1D7C2), (0x1D7C4, 0x1D7CB), (0x1DF00, 0x1DF09),
     (0x1DF0B, 0x1DF1E), (0x1E900, 0x1E943), (0x1F130, 0x1F149), (0x1F150, 0x1F169), (0x1F170, 0x1F189)]"

definition case_ignorable_table :: "(nat \<times> nat) list" where
  "case_ignorable_table =
    [(0x27, 0x27), (0x2E, 0x2E), (0x3A, 0x3A), (0x5E, 0x5E), (0x60, 0x60),
     (0xA8, 0xA8), (0xAD, 0xAD), (0xAF, 0xAF), (0xB4, 0xB4), (0xB7, 0xB8),
     (0x2B0, 0x36F), (0x374, 0x375), (0x37A, 0x37A), (0x384, 0x385), (0x387, 0x387),
     (0x483, 0x489), (0x559, 0x559), (0x55F, 0x55F), (0x591, 0x5BD), (0x5BF, 0x5BF),
     (0x5C1, 0x5C2), (0x5C4, 0x5C5), (0x5C7, 0x5C7), (0x5F4, 0x5F4), (0x600, 0x605),
     (0x610, 0x61A), (0x61C, 0x61C), (0x640, 0x640), (0x64B, 0x65F), (0x670, 0x670),
     (0x6D6, 0x6DD), (0x6DF, 0x6E8), (0x6EA, 0x6ED), (0x70F, 0x70F), (0x711, 0x711),
     (0x730, 0x74A), (0x7A6, 0x7B0), (0x7EB, 0x7F5), (0x7FA, 0x7FA), (0x7FD, 0x7FD),
     (0x816, 0x82D), (0x859, 0x85B), (0x888, 0x888), (0x890, 0x891), (0x898, 0x89F),
     (0x8C9, 0x902), (0x93A, 0x93A), (0x93C, 0x93C), (0x941, 0x948), (0x94D, 0x94D),
     (0x951, 0x957), (0x962, 0x963), (0x971, 0x971), (0x981, 0x981), (0x9BC, 0x9BC),
     (0x9C1, 0x9C4), (0x9CD, 0x9CD), (0x9E2, 0x9E3), (0x9FE, 0x9FE), (0xA01, 0xA02),
     (0xA3C, 0xA3C), (0xA41, 0xA42), (0xA47, 0xA48), (0xA4B, 0xA4D), (0xA51, 0xA51),
     (0xA70, 0xA71), (0xA75, 0xA75), (0xA81, 0xA82), (0xABC, 0xABC), (0xAC1, 0xAC5),
     (0xAC7, 0xAC8), (0xACD, 0xACD), (0xAE2, 0xAE3), (0xAFA, 0xAFF), (0xB01, 0xB01),
     (0xB3C, 0xB3C), (0xB3F, 0xB3F), (0xB41, 0xB44), (0xB4D, 0xB4D), (0xB55, 0xB56),
     (0xB62, 0xB63), (0xB82, 0xB82), (0xBC0, 0xBC0), (0xBCD, 0xBCD), (0xC00, 0xC00),
     (0xC04, 0xC04), (0xC3C, 0xC3C), (0xC3E, 0xC40), (0xC46, 0xC48), (0xC4A, 0xC4D),
     (0xC55, 0xC56), (0xC62, 0xC63), (0xC81, 0xC81), (0xCBC, 0xCBC), (0xCBF, 0xCBF),
     (0xCC6, 0xCC6), (0xCCC, 0xCCD), (0xCE2, 0xCE3), (0xD00, 0xD01), (0xD3B, 0xD3C),
     (0xD41, 0xD44), (0xD4D, 0xD4D), (0xD62, 0xD63), (0xD81, 0xD81), (0xDCA, 0xDCA),
     (0xDD2, 0xDD4), (0xDD6, 0xDD6), (0xE31, 0xE31), (0xE34, 0xE3A), (0xE46, 0xE4E),
     (0xEB1, 0xEB1), (0xEB4, 0xEBC), (0xEC6, 0xEC6), (0xEC8, 0xECD), (0xF18, 0xF19),
     (0xF35, 0xF35), (0xF37, 0xF37), (0xF39, 0xF39), (0xF71, 0xF7E), (0xF80, 0xF84),
     (0xF86, 0xF87), (0xF8D, 0xF97), (0xF99, 0xFBC), (0xFC6, 0xFC6), (0x102D, 0x1030),
     (0x1032, 0x1037), (0x1039, 0x103A), (0x103D, 0x103E), (0x1058, 0x1059), (0x105E, 0x1060),
     (0x1071, 0x1074), (0x1082, 0x1082), (0x1085, 0x1086), (0x108D, 0x108D), (0x109D, 0x109D),
     (0x10FC, 0x10FC), (0x135D, 0x135F), (0x1712, 0x1714), (0x1732, 0x1733), (0x1752, 0x1753),
     (0x1772, 0x1773), (0x17B4, 0x17B5), (0x17B7, 0x17BD), (0x17C6, 0x17C6), (0x17C9, 0x17D3),
     (0x17D7, 0x17D7), (0x17DD, 0x17DD), (0x180B, 0x180F), (0x1843, 0x1843), (0x1885, 0x1886),
     (0x18A9, 0x18A9), (0x1920, 0x1922), (0x1927, 0x1928), (0x1932, 0x1932), (0x1939, 0x193B),
     (0x1A17, 0x1A18), (0x1A1B, 0x1A1B), (0x1A56, 0x1A56), (0x1A58, 0x1A5E), (0x1A60, 0x1A60),
     (0x1A62, 0x1A62), (0x1A65, 0x1A6C), (0x1A73, 0x1A7C), (0x1A7F, 0x1A7F), (0x1AA7, 0x1AA7),
     (0x1AB0, 0x1ACE), (0x1B00, 0x1B03), (0x1B34, 0x1B34), (0x1B36, 0x1B3A), (0x1B3C, 0x1B3C),
     (0x1B42, 0x1B42), (0x1B6B, 0x1B73), (0x1B80, 0x1B81), (0x1BA2, 0x1BA5), (0x1BA8, 0x1BA9),
     (0x1BAB, 0x1BAD), (0x1BE6, 0x1BE6), (0x1BE8, 0x1BE9), (0x1BED, 0x1BED), (0x1BEF, 0x1BF1),
     (0x1C2C, 0x1C33), (0x1C36, 0x1C37), (0x1C78, 0x1C7D), (0x1CD0, 0x1CD2), (0x1CD4, 0x1CE0),
     (0x1CE2, 0x1CE8), (0x1CED, 0x1CED), (0x1CF4, 0x1CF4), (0x1CF8, 0x1CF9), (0x1D2C, 0x1D6A),
     (0x1D78, 0x1D78), (0x1D9B, 0x1DFF), (0x1FBD, 0x1FBD), (0x1FBF, 0x1FC1), (0x1FCD, 0x1FCF),
     (0x1FDD, 0x1FDF), (0x1FED, 0x1FEF), (0x1FFD, 0x1FFE), (0x200B, 0x200F), (0x2018, 0x2019),
     (0x2024, 0x2024), (0x2027, 0x2027), (0x202A, 0x202E), (0x2060, 0x2064), (0x2066, 0x206F),
     (0x2071, 0x2071), (0x207F, 0x207F), (0x2090, 0x209C), (0x20D0, 0x20F0), (0x2C7C, 0x2C7D),
     (0x2CEF, 0x2CF1), (0x2D6F, 0x2D6F), (0x2D7F, 0x2D7F), (0x2DE0, 0x2DFF), (0x2E2F, 0x2E2F),
     (0x3005, 0x3005), (0x302A, 0x302D), (0x3031, 0x3035), (0x303B, 0x303B), (0x3099, 0x309E),
     (0x30FC, 0x30FE), (0xA015, 0xA015), (0xA4F8, 0xA4FD), (0xA60C, 0xA60C), (0xA66F, 0xA672),
     (0xA674, 0xA67D), (0xA67F, 0xA67F), (0xA69C, 0xA69F), (0xA6F0, 0xA6F1), (0xA700, 0xA721),
     (0xA770, 0xA770), (0xA788, 0xA78A), (0xA7F2, 0xA7F4), (0xA7F8, 0xA7F9), (0xA802, 0xA802),
     (0xA806, 0xA806), (0xA80B, 0xA80B), (0xA825, 0xA826), (0xA82C, 0xA82C), (0xA8C4, 0xA8C5),
     (0xA8E0, 0xA8F1), (0xA8FF, 0xA8FF), (0xA926, 0xA92D), (0xA947, 0xA951), (0xA980, 0xA982),
     (0xA9B3, 0xA9B3), (0xA9B6, 0xA9B9), (0xA9BC, 0xA9BD), (0xA9CF, 0xA9CF), (0xA9E5, 0xA9E6),
     (0xAA29, 0xAA2E), (0xAA31, 0xAA32), (0xAA35, 0xAA36), (0xAA43, 0xAA43), (0xAA4C, 0xAA4C),
     (0xAA70, 0xAA70), (0xAA7C, 0xAA7C), (0xAAB0, 0xAAB0), (0xAAB2, 0xAAB4), (0xAAB7, 0xAAB8),
     (0xAABE, 0xAABF), (0xAAC1, 0xAAC1), (0xAADD, 0xAADD), (0xAAEC, 0xAAED), (0xAAF3, 0xAAF4),
     (0xAAF6, 0xAAF6), (0xAB5B, 0xAB5F), (0xAB69, 0xAB6B), (0xABE5, 0xABE5), (0xABE8, 0xABE8),
     (0xABED, 0xABED), (0xFB1E, 0xFB1E), (0xFBB2, 0xFBC2), (0xFE00, 0xFE0F), (0xFE13, 0xFE13),
     (0xFE20, 0xFE2F), (0xFE52, 0xFE52), (0xFE55, 0xFE55), (0xFEFF, 0xFEFF), (0xFF07, 0xFF07),
     (0xFF0E, 0xFF0E), (0xFF1A, 0xFF1A), (0xFF3E, 0xFF3E), (0xFF40, 0xFF40), (0xFF70, 0xFF70),
     (0xFF9E, 0xFF9F), (0xFFE3, 0xFFE3), (0xFFF9, 0xFFFB), (0x101FD, 0x101FD), (0x102E0, 0x102E0),
     (0x10376, 0x1037A), (0x10780, 0x10785), (0x10787, 0x107B0), (0x107B2, 0x107BA), (0x10A01, 0x10A03),
     (0x10A05, 0x10A06), (0x10A0C, 0x10A0F), (0x10A38, 0x10A3A), (0x10A3F, 0x10A3F), (0x10AE5, 0x10AE6),
     (0x10D24, 0x10D27), (0x10EAB, 0x10EAC), (0x10F46, 0x10F50), (0x10F82, 0x10F85), (0x11001, 0x11001),
     (0x11038, 0x11046), (0x11070, 0x11070), (0x11073, 0x11074), (0x1107F, 0x11081), (0x110B3, 0x110B6),
     (0x110B9, 0x110BA), (0x110BD, 0x110BD), (0x110C2, 0x110C2), (0x110CD, 0x110CD), (0x11100, 0x11102),
     (0x11127, 0x1112B), (0x1112D, 0x11134), (0x11173, 0x11173), (0x11180, 0x11181), (0x111B6, 0x111BE),
     (0x111C9, 0x111CC), (0x111CF, 0x111CF), (0x1122F, 0x11231), (0x11234, 0x11234), (0x11236, 0x11237),
     (0x1123E, 0x1123E), (0x112DF, 0x112DF), (0x112E3, 0x112EA), (0x11300, 0x11301), (0x1133B, 0x1133C),
     (0x11340, 0x11340), (0x11366, 0x1136C), (0x11370, 0x11374), (0x11438, 0x1143F), (0x11442, 0x11444),
     (0x11446, 0x11446), (0x1145E, 0x1145E), (0x114B3, 0x114B8), (0x114BA, 0x114BA), (0x114BF, 0x114C0),
     (0x114C2, 0x114C3), (0x115B2, 0x115B5), (0x115BC, 0x115BD), (0x115BF, 0x115C0), (0x115DC, 0x115DD),
     (0x11633, 0x1163A), (0x1163D, 0x1163D), (0x1163F, 0x11640), (0x116AB, 0x116AB), (0x116AD, 0x116AD),
     (0x116B0, 0x116B5), (0x116B7, 0x116B7), (0x1171D, 0x1171F), (0x11722, 0x11725), (0x11727, 0x1172B),
     (0x1182F, 0x11837), (0x11839, 0x1183A), (0x1193B, 0x1193C), (0x1193E, 0x1193E), (0x11943, 0x11943),
     (0x119D4, 0x119D7), (0x119DA, 0x119DB), (0x119E0, 0x119E0), (0x11A01, 0x11A0A), (0x11A33, 0x11A38),
     (0x11A3B, 0x11A3E), (0x11A47, 0x11A47), (0x11A51, 0x11A56), (0x11A59, 0x11A5B), (0x11A8A, 0x11A96),
     (0x11A98, 0x11A99), (0x11C30, 0x11C36), (0x11C38, 0x11C3D), (0x11C3F, 0x11C3F), (0x11C92, 0x11CA7),
     (0x11CAA, 0x11CB0), (0x11CB2, 0x11CB3), (0x11CB5, 0x11CB6), (0x11D31, 0x11D36), (0x11D3A, 0x11D3A),
     (0x11D3C, 0x11D3D), (0x11D3F, 0x11D45), (0x11D47, 0x11D47), (0x11D90, 0x11D91), (0x11D95, 0x11D95),
     (0x11D97, 0x11D97), (0x11EF3, 0x11EF4), (0x13430, 0x13438), (0x16AF0, 0x16AF4), (0x16B30, 0x16B36),
     (0x16B40, 0x16B43), (0x16F4F, 0x16F4F), (0x16F8F, 0x16F9F), (0x16FE0, 0x16FE1), (0x16FE3, 0x16FE4),
     (0x1AFF0, 0x1AFF3), (0x1AFF5, 0x1AFFB), (0x1AFFD, 0x1AFFE), (0x1BC9D, 0x1BC9E), (0x1BCA0, 0x1BCA3),
     (0x1CF00, 0x1CF2D), (0x1CF30, 0x1CF46), (0x1D167, 0x1D169), (0x1D173, 0x1D182), (0x1D185, 0x1D18B),
     (0x1D1AA, 0x1D1AD), (0x1D242, 0x1D244), (0x1DA00, 0x1DA36), (0x1DA3B, 0x1DA6C), (0x1DA75, 0x1DA75),
     (0x1DA84, 0x1DA84), (0x1DA9B, 0x1DA9F), (0x1DAA1, 0x1DAAF), (0x1E000, 0x1E006), (0x1E008, 0x1E018),
     (0x1E01B, 0x1E021), (0x1E023, 0x1E024), (0x1E026, 0x1E02A), (0x1E130, 0x1E13D), (0x1E2AE, 0x1E2AE),
     (0x1E2EC, 0x1E2EF), (0x1E8D0, 0x1E8D6), (0x1E944, 0x1E94B), (0x1F3FB, 0x1F3FF), (0xE0001, 0xE0001),
     (0xE0020, 0xE007F), (0xE0100, 0xE01EF)]"

fun lookup_lower :: "(nat \<times> nat \<times> nat \<times> nat) list \<Rightarrow> nat \<Rightarrow> nat" where
  "lookup_lower [] c = c"
| "lookup_lower ((lo, hi, step, target) # runs) c =
     (if lo \<le> c \<and> c \<le> hi \<and> (c - lo) mod step = 0 then target + (c - lo)
      else lookup_lower runs c)"

fun in_ranges :: "(nat \<times> nat) list \<Rightarrow> nat \<Rightarrow> bool" where
  "in_ranges [] c = False"
| "in_ranges ((lo, hi) # ranges) c = (lo \<le> c \<and> c \<le> hi \<or> in_ranges ranges c)"

definition to_lower :: "nat \<Rightarrow> nat" where
  "to_lower c = lookup_lower lowercase_table c"

definition is_cased :: "nat \<Rightarrow> bool" where
  "is_cased c = in_ranges cased_table c"

definition is_case_ignorable :: "nat \<Rightarrow> bool" where
  "is_case_ignorable c = in_ranges case_ignorable_table c"

text \<open>
  The full lower-case mapping of a code point: its simple mapping, but for the capital I
  with dot above (\<open>U+0130\<close>), which becomes two code points.
\<close>

definition to_lower_full :: "nat \<Rightarrow> str" where
  "to_lower_full c = (if c = 0x130 then [0x69, 0x307] else [to_lower c])"

text \<open>
  A capital sigma (\<open>U+03A3\<close>) becomes the final small sigma (\<open>U+03C2\<close>) when a cased
  code point comes before it and none after it, case-ignorable code points being skipped
  on both sides; else the small sigma (\<open>U+03C3\<close>). \<open>seen\<close> is the part of the string
  before the sigma, nearest code point first, and \<open>rest\<close> the part after it.
\<close>

definition handle_capital_sigma :: "str \<Rightarrow> str \<Rightarrow> nat" where
  "handle_capital_sigma seen rest =
     (let final_sigma =
        (case dropWhile is_case_ignorable seen of [] \<Rightarrow> False | c # _ \<Rightarrow> is_cased c) \<and>
        (case dropWhile is_case_ignorable rest of [] \<Rightarrow> True | c # _ \<Rightarrow> \<not> is_cased c)
      in if final_sigma then 0x3C2 else 0x3C3)"

fun lower_from :: "str \<Rightarrow> str \<Rightarrow> str" where
  "lower_from seen [] = []"
| "lower_from seen (c # rest) =
     (if c = 0x3A3 then [handle_capital_sigma seen rest] else to_lower_full c)
     @ lower_from (c # seen) rest"

definition lower :: "str \<Rightarrow> str" where
  "lower s = lower_from [] s"

text \<open>\<open>s.startswith(p)\<close> and the substring test \<open>sub in s\<close>.\<close>

fun startswith :: "str \<Rightarrow> str \<Rightarrow> bool" where
  "startswith s [] = True"
| "startswith [] (p # ps) = False"
| "startswith (c # cs) (p # ps) = (c = p \<and> startswith cs ps)"

fun str_contains :: "str \<Rightarrow> str \<Rightarrow> bool" where
  "str_contains [] sub = (sub = [])"
| "str_contains (c # cs) sub = (startswith (c # cs) sub \<or> str_contains cs sub)"

text \<open>
  \<open>str(n)\<close> for an integer: the decimal digits, after a minus sign when negative. Integers
  are unbounded, as in the language.
\<close>

fun digits :: "nat \<Rightarrow> str" where
  "digits n = (if n < 10 then [0x30 + n] else digits (n div 10) @ [0x30 + n mod 10])"

declare digits.simps [simp del]

definition str_int :: "int \<Rightarrow> str" where
  "str_int i = (if i < 0 then 0x2D # digits (nat (- i)) else digits (nat i))"

section \<open>Exceptions and results\<close>

text \<open>
  The exceptions the program can meet. \<open>OtherOSError\<close> is an \<open>OSError\<close> that is not a
  \<open>FileNotFoundError\<close>; \<open>ValueError\<close> is a \<open>ValueError\<close> of no subclass. \<open>KeyError\<close>
  carries the missing key.
\<close>

datatype exn =
    FileNotFoundError
  | OtherOSError
  | JSONDecodeError
  | UnicodeDecodeError
  | UnicodeEncodeError
  | ValueError
  | KeyError str
  | TypeError

text \<open>
  \<open>isinstance(e, ValueError)\<close>: in Python \<open>json.JSONDecodeError\<close> and, through
  \<open>UnicodeError\<close>, the two Unicode errors are subclasses of \<open>ValueError\<close>; \<open>KeyError\<close> is a
  \<open>LookupError\<close>, \<open>TypeError\<close> and \<open>OSError\<close> are direct subclasses of \<open>Exception\<close>.
\<close>

fun is_ValueError :: "exn \<Rightarrow> bool" where
  "is_ValueError ValueError = True"
| "is_ValueError JSONDecodeError = True"
| "is_ValueError UnicodeDecodeError = True"
| "is_ValueError UnicodeEncodeError = True"
| "is_ValueError _ = False"

text \<open>
  The result of a call that builds Books from file data. Python checks no annotation, so
  \<open>from_dict\<close> on a record whose \<open>id\<close> is, say, a string returns a Book object
  outside the annotated types of \<open>Book.__init__\<close>; the typed record \<open>Book\<close> below has no
  such value, and the model answers \<open>Ill_typed\<close> (the call returned, with an object that
  is not represented). Every raise of the source is a \<open>Raises\<close>.
\<close>

datatype 'a result = Returns 'a | Raises exn | Ill_typed

section \<open>BookStatus and Book\<close>

datatype BookStatus = AVAILABLE | ISSUED

text \<open>The enum's values, \<open>self.status.value\<close>: the two Cyrillic literals of the source.\<close>

fun BookStatus_value :: "BookStatus \<Rightarrow> str" where
  "BookStatus_value AVAILABLE =
     [0x432, 0x20, 0x43D, 0x430, 0x43B, 0x438, 0x447, 0x438, 0x438]"
| "BookStatus_value ISSUED = [0x432, 0x44B, 0x434, 0x430, 0x43D, 0x430]"

definition value2member_map :: "(str \<times> BookStatus) list" where
  "value2member_map = [(BookStatus_value AVAILABLE, AVAILABLE), (BookStatus_value ISSUED, ISSUED)]"

definition has_value :: "str \<Rightarrow> bool" where
  "has_value v = (map_of value2member_map v \<noteq> None)"

record Book =
  book_id :: int
  title :: str
  author :: str
  year :: int
  status :: BookStatus

definition Book_init :: "int \<Rightarrow> str \<Rightarrow> str \<Rightarrow> int \<Rightarrow> BookStatus \<Rightarrow> Book" where
  "Book_init i t a y st = \<lparr>book_id = i, title = t, author = a, year = y, status = st\<rparr>"

section \<open>JSON values, to_dict and from_dict\<close>

text \<open>
  What \<open>json.load\<close> returns: \<open>None\<close>, a bool, an int, a float (never inspected by the
  program; kept as mantissa and exponent), a str, a list, or a dict with string keys,
  held as the list of its items with each key once.
\<close>

datatype json =
    JNull
  | JBool bool
  | JInt int
  | JFloat int int
  | JStr str
  | JArr "json list"
  | JObj "(str \<times> json) list"

definition to_dict :: "Book \<Rightarrow> json" where
  "to_dict b = JObj
     [(ustr ''id'', JInt (book_id b)),
      (ustr ''title'', JStr (title b)),
      (ustr ''author'', JStr (author b)),
      (ustr ''year'', JInt (year b)),
      (ustr ''status'', JStr (BookStatus_value (status b)))]"

text \<open>\<open>data[key]\<close> with a string key: only a dict can be subscripted by a string.\<close>

fun subscript :: "json \<Rightarrow> str \<Rightarrow> exn + json" where
  "subscript (JObj kvs) k = (case map_of kvs k of None \<Rightarrow> Inl (KeyError k) | Some v \<Rightarrow> Inr v)"
| "subscript _ k = Inl TypeError"

text \<open>\<open>BookStatus(v)\<close>: the member whose value is \<open>v\<close>, or a \<open>ValueError\<close>.\<close>

fun BookStatus_call :: "json \<Rightarrow> exn + BookStatus" where
  "BookStatus_call (JStr v) =
     (case map_of value2member_map v of None \<Rightarrow> Inl ValueError | Some m \<Rightarrow> Inr m)"
| "BookStatus_call _ = Inl ValueError"

text \<open>The arguments of \<open>Book(...)\<close> when they have the annotated types.\<close>

fun typed_args :: "json \<Rightarrow> json \<Rightarrow> json \<Rightarrow> json \<Rightarrow> (int \<times> str \<times> str \<times> int) option" where
  "typed_args (JInt i) (JStr t) (JStr a) (JInt y) = Some (i, t, a, y)"
| "typed_args _ _ _ _ = None"

text \<open>
  \<open>Book.from_dict\<close>: the keyword arguments are evaluated in the order written, so the five
  subscripts come first (a \<open>KeyError\<close> for the first absent key), then \<open>BookStatus(...)\<close>
  (a \<open>ValueError\<close>), and only then is the Book built.
\<close>

definition from_dict :: "json \<Rightarrow> Book result" where
  "from_dict data =
     (case subscript data (ustr ''id'') of Inl e \<Rightarrow> Raises e | Inr i \<Rightarrow>
     (case subscript data (ustr ''title'') of Inl e \<Rightarrow> Raises e | Inr t \<Rightarrow>
     (case subscript data (ustr ''author'') of Inl e \<Rightarrow> Raises e | Inr a \<Rightarrow>
     (case subscript data (ustr ''year'') of Inl e \<Rightarrow> Raises e | Inr y \<Rightarrow>
     (case subscript data (ustr ''status'') of Inl e \<Rightarrow> Raises e | Inr s \<Rightarrow>
     (case BookStatus_call s of Inl e \<Rightarrow> Raises e | Inr st \<Rightarrow>
     (case typed_args i t a y of None \<Rightarrow> Ill_typed
      | Some (i', t', a', y') \<Rightarrow> Returns (Book_init i' t' a' y' st))))))))"

section \<open>LibraryStorage\<close>

text \<open>
  The file system has at a path nothing (\<open>None\<close>), or one of:
  \<^item> \<open>Regular t\<close>, a file whose bytes are the UTF-8 encoding of the text \<open>t\<close>;
  \<^item> \<open>Not_utf8\<close>, a file whose bytes are not valid UTF-8;
  \<^item> \<open>Truncated\<close>, a file that holds the beginning of a JSON document and stops inside
    it, as a write that failed leaves it;
  \<^item> \<open>Unopenable\<close>, something \<open>open\<close> refuses (a directory, a file without permission);
  \<^item> \<open>No_directory\<close>, nothing, in a directory that does not exist either.
  The text of a file is of a type \<open>'t\<close>, and the standard library's \<open>json.load\<close> and
  \<open>json.dump\<close> are parameters: \<open>json_load t = None\<close> is a \<open>JSONDecodeError\<close>.
\<close>

datatype 't entry = Regular 't | Not_utf8 | Truncated | Unopenable | No_directory

type_synonym 't filesystem = "str \<Rightarrow> 't entry option"

text \<open>
  \<open>open(path, 'r', encoding='utf-8')\<close>, and what \<open>json.load\<close> does with the open file:
  it reads and decodes all of it, then parses the text.
\<close>

definition open_r :: "'t filesystem \<Rightarrow> str \<Rightarrow> exn + 't entry" where
  "open_r fs path =
     (case fs path of
        None \<Rightarrow> Inl FileNotFoundError
      | Some No_directory \<Rightarrow> Inl FileNotFoundError
      | Some Unopenable \<Rightarrow> Inl OtherOSError
      | Some file \<Rightarrow> Inr file)"

fun json_load_file :: "('t \<Rightarrow> json option) \<Rightarrow> 't entry \<Rightarrow> exn + json" where
  "json_load_file json_load (Regular content) =
     (case json_load content of None \<Rightarrow> Inl JSONDecodeError | Some data \<Rightarrow> Inr data)"
| "json_load_file json_load Not_utf8 = Inl UnicodeDecodeError"
| "json_load_file json_load Truncated = Inl JSONDecodeError"
| "json_load_file json_load Unopenable = Inl OtherOSError"
| "json_load_file json_load No_directory = Inl FileNotFoundError"

text \<open>\<open>for book in data\<close>: a list gives its items, a dict its keys, a str its characters.\<close>

fun iterate :: "json \<Rightarrow> exn + json list" where
  "iterate (JArr xs) = Inr xs"
| "iterate (JObj kvs) = Inr (map (\<lambda>kv. JStr (fst kv)) kvs)"
| "iterate (JStr s) = Inr (map (\<lambda>c. JStr [c]) s)"
| "iterate _ = Inl TypeError"

text \<open>
  The comprehension \<open>[Book.from_dict(book) for book in data]\<close>: the first record that
  raises ends it, also after a record that was ill-typed.
\<close>

fun from_dicts :: "json list \<Rightarrow> Book list result" where
  "from_dicts [] = Returns []"
| "from_dicts (d # ds) =
     (case from_dict d of
        Raises e \<Rightarrow> Raises e
      | Returns b \<Rightarrow>
          (case from_dicts ds of
             Returns bs \<Rightarrow> Returns (b # bs)
           | Raises e \<Rightarrow> Raises e
           | Ill_typed \<Rightarrow> Ill_typed)
      | Ill_typed \<Rightarrow>
          (case from_dicts ds of
             Raises e \<Rightarrow> Raises e
           | _ \<Rightarrow> Ill_typed))"

text \<open>The body of the \<open>try\<close> in \<open>load_books\<close>, and the \<open>except\<close> clause around it.\<close>

definition load_body :: "('t \<Rightarrow> json option) \<Rightarrow> 't filesystem \<Rightarrow> str \<Rightarrow> Book list result" where
  "load_body json_load fs data_file =
     (case open_r fs data_file of
        Inl e \<Rightarrow> Raises e
      | Inr file \<Rightarrow>
          (case json_load_file json_load file of
             Inl e \<Rightarrow> Raises e
           | Inr data \<Rightarrow>
               (case iterate data of
                  Inl e \<Rightarrow> Raises e
                | Inr items \<Rightarrow> from_dicts items)))"

definition load_books :: "('t \<Rightarrow> json option) \<Rightarrow> 't filesystem \<Rightarrow> str \<Rightarrow> Book list result" where
  "load_books json_load fs data_file =
     (case load_body json_load fs data_file of
        Raises e \<Rightarrow>
          (if e = FileNotFoundError \<or> e = JSONDecodeError then Returns [] else Raises e)
      | r \<Rightarrow> r)"

text \<open>
  A string can be written to a UTF-8 file when it has no surrogate code point
  (\<open>U+D800\<close> to \<open>U+DFFF\<close>); of what \<open>to_dict\<close> gives, only a title or an author can have one.
\<close>

definition encodable :: "str \<Rightarrow> bool" where
  "encodable s = list_all (\<lambda>c. \<not> (0xD800 \<le> c \<and> c \<le> 0xDFFF)) s"

text \<open>
  \<open>save_books\<close> returns the new file system, or raises and leaves a file system behind:
  \<open>open(path, 'w')\<close> raises where the path cannot be opened or its directory is missing,
  and changes nothing; else it empties the file, and \<open>json.dump\<close> writes the document
  piece by piece, so that a string that cannot be encoded raises a \<open>UnicodeEncodeError\<close>
  in the middle and leaves the file truncated.
\<close>

definition save_books ::
    "(json \<Rightarrow> 't) \<Rightarrow> 't filesystem \<Rightarrow> str \<Rightarrow> Book list \<Rightarrow>
       (exn \<times> 't filesystem) + 't filesystem" where
  "save_books json_dump fs data_file bs =
     (case fs data_file of
        Some Unopenable \<Rightarrow> Inl (OtherOSError, fs)
      | Some No_directory \<Rightarrow> Inl (FileNotFoundError, fs)
      | _ \<Rightarrow>
          if list_all (\<lambda>book. encodable (title book) \<and> encodable (author book)) bs
          then Inr (fs(data_file \<mapsto> Regular (json_dump (JArr (map to_dict bs)))))
          else Inl (UnicodeEncodeError, fs(data_file \<mapsto> Truncated)))"

section \<open>Library\<close>

text \<open>
  The state a Library works on: the path of its storage, its list \<open>books\<close>, and the file
  system. The Book objects of the list are created one by one (by \<open>add_book\<close> and by
  \<open>from_dict\<close>) and never shared, so the list of objects is a list of values.
\<close>

record 't state =
  data_file :: str
  books :: "Book list"
  disk :: "'t filesystem"

definition Library_init :: "('t \<Rightarrow> json option) \<Rightarrow> str \<Rightarrow> 't filesystem \<Rightarrow> 't state result" where
  "Library_init json_load path fs =
     (case load_books json_load fs path of
        Returns bs \<Rightarrow> Returns \<lparr>data_file = path, books = bs, disk = fs\<rparr>
      | Raises e \<Rightarrow> Raises e
      | Ill_typed \<Rightarrow> Ill_typed)"

text \<open>The line each operation prints when it ends, with the values it interpolates.\<close>

datatype report =
    Added str int
  | Removed int
  | NotFound int
  | StatusUpdated int str
  | InvalidStatus

text \<open>\<open>max(xs, default=d)\<close>.\<close>

fun max_default :: "int list \<Rightarrow> int \<Rightarrow> int" where
  "max_default [] d = d"
| "max_default (x # xs) d = foldl max x xs"

text \<open>
  Each operation returns what it printed, or the exception that left it, and the state
  after it. The list is changed before \<open>save_books\<close> is called, so it stays changed
  when \<open>save_books\<close> raises, and so does what \<open>save_books\<close> did to the file.
\<close>

definition add_book ::
    "(json \<Rightarrow> 't) \<Rightarrow> str \<Rightarrow> str \<Rightarrow> int \<Rightarrow> 't state \<Rightarrow> (exn + report) \<times> 't state" where
  "add_book json_dump t a y s =
     (let new_id = max_default (map book_id (books s)) 0 + 1;
          new_book = Book_init new_id t a y AVAILABLE;
          s1 = s\<lparr>books := books s @ [new_book]\<rparr>
      in case save_books json_dump (disk s1) (data_file s1) (books s1) of
           Inl (e, fs) \<Rightarrow> (Inl e, s1\<lparr>disk := fs\<rparr>)
         | Inr fs \<Rightarrow> (Inr (Added t new_id), s1\<lparr>disk := fs\<rparr>))"

definition remove_book ::
    "(json \<Rightarrow> 't) \<Rightarrow> int \<Rightarrow> 't state \<Rightarrow> (exn + report) \<times> 't state" where
  "remove_book json_dump i s =
     (case find (\<lambda>book. book_id book = i) (books s) of
        Some book_to_remove \<Rightarrow>
          (let s1 = s\<lparr>books := remove1 book_to_remove (books s)\<rparr>
           in case save_books json_dump (disk s1) (data_file s1) (books s1) of
                Inl (e, fs) \<Rightarrow> (Inl e, s1\<lparr>disk := fs\<rparr>)
              | Inr fs \<Rightarrow> (Inr (Removed i), s1\<lparr>disk := fs\<rparr>))
      | None \<Rightarrow> (Inr (NotFound i), s))"

definition search_books :: "Book list \<Rightarrow> str \<Rightarrow> Book list" where
  "search_books bs keyword =
     [book \<leftarrow> bs.
        str_contains (lower (title book)) (lower keyword) \<or>
        str_contains (lower (author book)) (lower keyword) \<or>
        keyword = str_int (year book)]"

text \<open>\<open>display_books\<close> prints one line for an empty list, else a header and a row per Book.\<close>

datatype display = Library_empty | Table "Book list"

definition display_books :: "'t state \<Rightarrow> display \<times> 't state" where
  "display_books s = (if books s = [] then (Library_empty, s) else (Table (books s), s))"

text \<open>\<open>book.status = ...\<close> on the object \<open>next\<close> found: the first Book with the id.\<close>

fun set_status_first :: "int \<Rightarrow> BookStatus \<Rightarrow> Book list \<Rightarrow> Book list" where
  "set_status_first i st [] = []"
| "set_status_first i st (b # bs) =
     (if book_id b = i then b\<lparr>status := st\<rparr> # bs else b # set_status_first i st bs)"

definition update_status ::
    "(json \<Rightarrow> 't) \<Rightarrow> int \<Rightarrow> str \<Rightarrow> 't state \<Rightarrow> (exn + report) \<times> 't state" where
  "update_status json_dump i new_status s =
     (case find (\<lambda>book. book_id book = i) (books s) of
        Some book \<Rightarrow>
          (if has_value new_status then
             (case BookStatus_call (JStr new_status) of
                Inl e \<Rightarrow> (Inl e, s)
              | Inr st \<Rightarrow>
                  (let s1 = s\<lparr>books := set_status_first i st (books s)\<rparr>
                   in case save_books json_dump (disk s1) (data_file s1) (books s1) of
                        Inl (e, fs) \<Rightarrow> (Inl e, s1\<lparr>disk := fs\<rparr>)
                      | Inr fs \<Rightarrow> (Inr (StatusUpdated i new_status), s1\<lparr>disk := fs\<rparr>)))
           else (Inr InvalidStatus, s))
      | None \<Rightarrow> (Inr (NotFound i), s))"

section \<open>Sequences of operations\<close>

text \<open>The five operations of the Library as commands, and what a caller sees of each.\<close>

datatype command =
    Add str str int
  | Remove int
  | Search str
  | Display
  | Update int str

datatype outcome =
    Printed report
  | Raised exn
  | Found "Book list"
  | Shown display

definition printed :: "(exn + report) \<times> 't state \<Rightarrow> outcome \<times> 't state" where
  "printed r = (case fst r of Inl e \<Rightarrow> (Raised e, snd r) | Inr m \<Rightarrow> (Printed m, snd r))"

fun exec :: "(json \<Rightarrow> 't) \<Rightarrow> command \<Rightarrow> 't state \<Rightarrow> outcome \<times> 't state" where
  "exec json_dump (Add t a y) s = printed (add_book json_dump t a y s)"
| "exec json_dump (Remove i) s = printed (remove_book json_dump i s)"
| "exec json_dump (Search k) s = (Found (search_books (books s) k), s)"
| "exec json_dump Display s = (Shown (fst (display_books s)), snd (display_books s))"
| "exec json_dump (Update i v) s = printed (update_status json_dump i v s)"

fun run :: "(json \<Rightarrow> 't) \<Rightarrow> command list \<Rightarrow> 't state \<Rightarrow> outcome list \<times> 't state" where
  "run json_dump [] s = ([], s)"
| "run json_dump (c # cs) s =
     (let (out, s1) = exec json_dump c s;
          (outs, s2) = run json_dump cs s1
      in (out # outs, s2))"

text \<open>The ids that the adds of a run assigned, in call order.\<close>

fun assigned_ids :: "outcome list \<Rightarrow> int list" where
  "assigned_ids [] = []"
| "assigned_ids (Printed (Added t i) # outs) = i # assigned_ids outs"
| "assigned_ids (_ # outs) = assigned_ids outs"

section \<open>Notions of the specification\<close>








text \<open>The keys a record must have, in the order \<open>from_dict\<close> reads them.\<close>

definition required_keys :: "str list" where
  "required_keys = [ustr ''id'', ustr ''title'', ustr ''author'', ustr ''year'', ustr ''status'']"

text \<open>The Books with the ids 1, 2, ... in order, one for each triple of title, author and year.\<close>

definition numbered :: "(str \<times> str \<times> int) list \<Rightarrow> Book list" where
  "numbered args =
     map (\<lambda>(n, (t, a, y)). Book_init (int n) t a y AVAILABLE) (zip [1..<Suc (length args)] args)"

section \<open>Example data\<close>

text \<open>
  A small catalog for the concrete instances below. Its file texts are of type
  \<open>json option\<close>: \<open>Some v\<close> is a text that \<open>json.load\<close> reads as \<open>v\<close> (so \<open>json.dump\<close> is
  \<open>Some\<close> and \<open>json.load\<close> the identity), \<open>None\<close> a text that is no JSON.
\<close>

definition catalog_path :: str where
  "catalog_path = ustr ''library_data.json''"

definition dune :: Book where
  "dune = Book_init 1 (ustr ''Dune'') (ustr ''Herbert'') 1965 AVAILABLE"

definition emma :: Book where
  "emma = Book_init 3 (ustr ''Emma'') (ustr ''Austen'') 1815 ISSUED"



definition shelf :: "json option state" where
  "shelf = \<lparr>data_file = catalog_path, books = [dune, emma], disk = Map.empty\<rparr>"

definition record_without_status :: json where
  "record_without_status = JObj [(ustr ''id'', JInt 1), (ustr ''title'', JStr (ustr ''Dune'')),
      (ustr ''author'', JStr (ustr ''Herbert'')), (ustr ''year'', JInt 1965)]"

definition record_with_unknown_status :: json where
  "record_with_unknown_status = JObj [(ustr ''id'', JInt 2), (ustr ''title'', JStr (ustr ''Emma'')),
      (ustr ''author'', JStr (ustr ''Austen'')), (ustr ''year'', JInt 1815),
      (ustr ''status'', JStr (ustr ''lost''))]"

section \<open>Lower case\<close>

text \<open>The tables on the Basic Latin, Greek and Cyrillic code points of the examples.\<close>

lemma to_lower_basic_latin:
  "c < 0xC0 \<Longrightarrow> to_lower c = (if 0x41 \<le> c \<and> c \<le> 0x5A then c + 0x20 else c)"
  by (simp add: to_lower_def lowercase_table_def)

lemma to_lower_greek_capital:
  "0x391 \<le> c \<Longrightarrow> c \<le> 0x3A1 \<Longrightarrow> to_lower c = c + 0x20"
  by (simp add: to_lower_def lowercase_table_def)

lemma to_lower_cyrillic:
  "0x400 \<le> c \<Longrightarrow> c \<le> 0x45F \<Longrightarrow>
   to_lower c = (if c \<le> 0x40F then c + 0x50 else if c \<le> 0x42F then c + 0x20 else c)"
  by (simp add: to_lower_def lowercase_table_def)

lemma greek_capital_cased:
  "0x391 \<le> c \<Longrightarrow> c \<le> 0x3A1 \<Longrightarrow> is_cased c \<and> \<not> is_case_ignorable c"
  by (simp add: is_cased_def cased_table_def is_case_ignorable_def case_ignorable_table_def)

lemmas lower_eval =
  lower_def to_lower_full_def handle_capital_sigma_def to_lower_basic_latin
  to_lower_greek_capital to_lower_cyrillic greek_capital_cased











section \<open>Decimal strings\<close>







section \<open>Searching\<close>




text \<open>
  Claim C10. For every collection, searching with the empty keyword returns the whole
  collection in its order: the empty string is a substring of every title.
\<close>

theorem search_books_empty_keyword: "search_books bs [] = bs"
proof -
  have "str_contains s []" for s by (cases s) simp_all
  then show ?thesis by (simp add: search_books_def lower_def)
qed

text \<open>
  On the example shelf: a title is found whatever the case of the keyword, a year only by
  the whole of its decimal string. And \<open>lower\<close> on a dotted capital I, and on a capital
  sigma at the end of a word (before an apostrophe) and at the start of one.
\<close>

lemma search_books_examples:
  "search_books (books shelf) (ustr ''dUNE'') = [dune]"
  "search_books (books shelf) (ustr ''1815'') = [emma]"
  "search_books (books shelf) (ustr ''18'') = []"
  "search_books (books shelf) (ustr ''e'') = [dune, emma]"
  "lower [0x130, 0x49] = [0x69, 0x307, 0x69]"
  "lower [0x41, 0x3A3, 0x27, 0x20, 0x3A3, 0x42] = [0x61, 0x3C2, 0x27, 0x20, 0x3C3, 0x62]"
  by (simp_all add: search_books_def shelf_def dune_def emma_def Book_init_def ustr_def
      lower_eval str_int_def digits.simps is_cased_def cased_table_def
      is_case_ignorable_def case_ignorable_table_def)

section \<open>Adding Books\<close>

lemma foldl_max_Max: "foldl max (x::int) xs = Max (set (x # xs))"
proof (induction xs arbitrary: x)
  case Nil
  then show ?case by simp
next
  case (Cons y ys)
  have "foldl max x (y # ys) = Max (set (max x y # ys))" using Cons.IH by simp
  also have "\<dots> = Max (set (x # y # ys))"
    by (cases "ys = []") (simp_all add: Max_insert max.assoc)
  finally show ?case .
qed

lemma max_default_Max:
  "max_default xs d = (if xs = [] then d else Max (set xs))"
  by (cases xs) (simp_all add: foldl_max_Max)

lemma max_default_ge: "x \<in> set xs \<Longrightarrow> x \<le> max_default xs d"
  by (auto simp: max_default_Max)

lemma books_add_book:
  "books (snd (add_book dump t a y s)) =
     books s @ [Book_init (max_default (map book_id (books s)) 0 + 1) t a y AVAILABLE]"
  by (simp add: add_book_def Let_def split: sum.split prod.split)

lemma new_id_greater:
  "b \<in> set (books s) \<Longrightarrow> book_id b < max_default (map book_id (books s)) 0 + 1"
  using max_default_ge [of "book_id b" "map book_id (books s)" 0] by simp

lemma snd_run_snoc:
  "snd (run dump (cs @ [c]) s) = snd (exec dump c (snd (run dump cs s)))"
  by (induction cs arbitrary: s) (simp_all add: split_beta Let_def)

lemma max_default_upto: "max_default (map int [Suc 0..<Suc n]) 0 = int n"
proof (cases n)
  case 0
  then show ?thesis by simp
next
  case (Suc m)
  have "int n \<in> int ` {Suc 0..<Suc n}" using Suc by (intro imageI) simp
  then have "Max (int ` {Suc 0..<Suc n}) = int n"
    by (intro Max_eqI) auto
  then show ?thesis using Suc by (simp add: max_default_Max del: upt_Suc)
qed

lemma ids_numbered: "map book_id (numbered args) = map int [Suc 0..<Suc (length args)]"
  unfolding numbered_def
  by (rule nth_equalityI) (simp_all add: Book_init_def split_beta del: upt_Suc)

lemma numbered_snoc:
  "numbered (args @ [(t, a, y)]) =
     numbered args @ [Book_init (int (length args) + 1) t a y AVAILABLE]"
proof -
  have "zip [Suc 0..<Suc (Suc (length args))] (args @ [(t, a, y)]) =
        zip ([Suc 0..<Suc (length args)] @ [Suc (length args)]) (args @ [(t, a, y)])"
    by simp
  also have "\<dots> = zip [Suc 0..<Suc (length args)] args @ [(Suc (length args), (t, a, y))]"
    by (subst zip_append) (simp_all del: upt_Suc)
  finally show ?thesis
    unfolding numbered_def by (simp del: upt_Suc add: add.commute)
qed

lemma books_run_adds:
  "books (snd (run dump (map (\<lambda>(t, a, y). Add t a y) args)
      \<lparr>data_file = f, books = [], disk = d\<rparr>)) = numbered args"
proof (induction args rule: rev_induct)
  case Nil
  then show ?case by (simp add: numbered_def)
next
  case (snoc x xs)
  obtain t a y where x: "x = (t, a, y)" by (cases x) auto
  let ?s = "snd (run dump (map (\<lambda>(t, a, y). Add t a y) xs) \<lparr>data_file = f, books = [], disk = d\<rparr>)"
  have "books (snd (run dump (map (\<lambda>(t, a, y). Add t a y) (xs @ [x]))
      \<lparr>data_file = f, books = [], disk = d\<rparr>)) = books (snd (add_book dump t a y ?s))"
    by (simp add: x snd_run_snoc printed_def split: sum.split)
  also have "\<dots> = numbered xs @ [Book_init (int (length xs) + 1) t a y AVAILABLE]"
    using snoc.IH by (simp add: books_add_book ids_numbered max_default_upto del: upt_Suc)
  finally show ?case by (simp add: x numbered_snoc)
qed

text \<open>
  Claim C1. For every state, \<open>add_book\<close> appends one Book at the end of the collection,
  with the given title, author and year, the status \<open>AVAILABLE\<close>, and the id 1 when the
  collection was empty, else the greatest id of the collection plus one. Any number of
  adds on an empty collection creates the Books with the ids 1, 2, ..., N in call order.
\<close>

theorem add_book_spec:
  "books (snd (add_book dump t a y s)) =
     books s @ [\<lparr>book_id = (if books s = [] then 1 else Max (book_id ` set (books s)) + 1),
                 title = t, author = a, year = y, status = AVAILABLE\<rparr>]
   \<and> books (snd (run dump (map (\<lambda>(t, a, y). Add t a y) args)
        \<lparr>data_file = f, books = [], disk = d\<rparr>)) =
      map (\<lambda>(n, (t, a, y)). \<lparr>book_id = int n, title = t, author = a, year = y, status = AVAILABLE\<rparr>)
        (zip [1..<Suc (length args)] args)
   \<and> map book_id (books (snd (run dump (map (\<lambda>(t, a, y). Add t a y) args)
        \<lparr>data_file = f, books = [], disk = d\<rparr>))) = map int [1..<Suc (length args)]"
proof (intro conjI)
  show "books (snd (add_book dump t a y s)) =
     books s @ [\<lparr>book_id = (if books s = [] then 1 else Max (book_id ` set (books s)) + 1),
                 title = t, author = a, year = y, status = AVAILABLE\<rparr>]"
    by (simp add: books_add_book max_default_Max Book_init_def)
  show "books (snd (run dump (map (\<lambda>(t, a, y). Add t a y) args)
        \<lparr>data_file = f, books = [], disk = d\<rparr>)) =
      map (\<lambda>(n, (t, a, y)). \<lparr>book_id = int n, title = t, author = a, year = y, status = AVAILABLE\<rparr>)
        (zip [1..<Suc (length args)] args)"
    by (simp only: books_run_adds numbered_def Book_init_def)
  show "map book_id (books (snd (run dump (map (\<lambda>(t, a, y). Add t a y) args)
        \<lparr>data_file = f, books = [], disk = d\<rparr>))) = map int [1..<Suc (length args)]"
    by (simp only: books_run_adds ids_numbered One_nat_def)
qed

section \<open>Removing Books and updating the status\<close>

lemma books_remove_book:
  "books (snd (remove_book dump i s)) =
     (case find (\<lambda>book. book_id book = i) (books s) of None \<Rightarrow> books s
      | Some b \<Rightarrow> remove1 b (books s))"
  by (simp add: remove_book_def Let_def split: option.split sum.split prod.split)

lemma remove1_find_once:
  "count_list (map f xs) i = Suc 0 \<Longrightarrow>
   \<exists>b. find (\<lambda>b. f b = i) xs = Some b \<and> remove1 b xs = filter (\<lambda>b. f b \<noteq> i) xs"
proof (induction xs)
  case Nil
  then show ?case by simp
next
  case (Cons x xs)
  show ?case
  proof (cases "f x = i")
    case True
    with Cons.prems have "count_list (map f xs) i = 0" by simp
    then have "i \<notin> f ` set xs" by (simp add: count_list_0_iff)
    then have "filter (\<lambda>b. f b \<noteq> i) xs = xs" by (auto simp: filter_id_conv)
    with True show ?thesis by simp
  next
    case False
    with Cons.prems have "count_list (map f xs) i = Suc 0" by simp
    from Cons.IH [OF this] obtain b where b: "find (\<lambda>b. f b = i) xs = Some b"
      "remove1 b xs = filter (\<lambda>b. f b \<noteq> i) xs" by blast
    from b(1) have "f b = i" by (auto simp: find_Some_iff)
    with False have "x \<noteq> b" by auto
    with False b show ?thesis by simp
  qed
qed

lemma find_id_None: "i \<notin> book_id ` set bs \<Longrightarrow> find (\<lambda>book. book_id book = i) bs = None"
  by (auto simp: find_None_iff)

text \<open>
  Claim C7. When no Book of the collection has the id, \<open>remove_book\<close> and \<open>update_status\<close>
  raise nothing and leave the whole state (the collection and the file) as it was; they
  only report that the Book was not found. When exactly one Book has the id,
  \<open>remove_book\<close> deletes it from the collection and, when the save of the remaining
  Books returns, reports the removal and leaves the saved file; a second \<open>remove_book\<close>
  with the same id changes nothing and reports not-found.
\<close>

theorem absent_id_is_reported_only:
  "(i \<notin> book_id ` set (books s) \<longrightarrow>
      remove_book dump i s = (Inr (NotFound i), s) \<and>
      update_status dump i v s = (Inr (NotFound i), s))
   \<and> (count_list (map book_id (books s)) i = 1 \<longrightarrow>
      books (snd (remove_book dump i s)) = filter (\<lambda>b. book_id b \<noteq> i) (books s)
      \<and> (\<forall>fs'. save_books dump (disk s) (data_file s)
                  (filter (\<lambda>b. book_id b \<noteq> i) (books s)) = Inr fs' \<longrightarrow>
            remove_book dump i s =
              (Inr (Removed i),
               s\<lparr>books := filter (\<lambda>b. book_id b \<noteq> i) (books s), disk := fs'\<rparr>))
      \<and> remove_book dump i (snd (remove_book dump i s)) =
          (Inr (NotFound i), snd (remove_book dump i s)))"
proof (intro conjI impI allI)
  assume "i \<notin> book_id ` set (books s)"
  then have n: "find (\<lambda>book. book_id book = i) (books s) = None" by (rule find_id_None)
  show "remove_book dump i s = (Inr (NotFound i), s)" by (simp add: remove_book_def n)
  show "update_status dump i v s = (Inr (NotFound i), s)" by (simp add: update_status_def n)
next
  assume "count_list (map book_id (books s)) i = 1"
  then obtain b where b: "find (\<lambda>b. book_id b = i) (books s) = Some b"
    "remove1 b (books s) = filter (\<lambda>b. book_id b \<noteq> i) (books s)"
    using remove1_find_once [of book_id "books s" i] by auto
  show bs: "books (snd (remove_book dump i s)) = filter (\<lambda>b. book_id b \<noteq> i) (books s)"
    by (simp add: books_remove_book b)
  have "i \<notin> book_id ` set (books (snd (remove_book dump i s)))"
    unfolding bs by auto
  then have "find (\<lambda>book. book_id book = i) (books (snd (remove_book dump i s))) = None"
    by (rule find_id_None)
  then show "remove_book dump i (snd (remove_book dump i s)) =
          (Inr (NotFound i), snd (remove_book dump i s))"
    by (simp add: remove_book_def [of dump i "snd (remove_book dump i s)"])
  fix fs'
  assume "save_books dump (disk s) (data_file s)
            (filter (\<lambda>b. book_id b \<noteq> i) (books s)) = Inr fs'"
  then show "remove_book dump i s =
      (Inr (Removed i), s\<lparr>books := filter (\<lambda>b. book_id b \<noteq> i) (books s), disk := fs'\<rparr>)"
    by (simp add: remove_book_def b Let_def)
qed

theorem absent_id_is_reported_only_witness:
  "2 \<notin> book_id ` set (books shelf)
   \<and> remove_book Some 2 shelf = (Inr (NotFound 2), shelf)
   \<and> update_status Some 2 (BookStatus_value ISSUED) shelf = (Inr (NotFound 2), shelf)
   \<and> count_list (map book_id (books shelf)) 1 = 1
   \<and> books (snd (remove_book Some 1 shelf)) = [emma]
   \<and> save_books Some (disk shelf) (data_file shelf) [emma] =
       Inr (Map.empty(catalog_path \<mapsto> Regular (Some (JArr [to_dict emma]))))
   \<and> remove_book Some 1 shelf =
       (Inr (Removed 1),
        shelf\<lparr>books := [emma],
          disk := Map.empty(catalog_path \<mapsto> Regular (Some (JArr [to_dict emma])))\<rparr>)
   \<and> remove_book Some 1 (snd (remove_book Some 1 shelf)) =
       (Inr (NotFound 1), snd (remove_book Some 1 shelf))"
proof -
  have h1: "2 \<notin> book_id ` set (books shelf)"
    by (simp add: shelf_def dune_def emma_def Book_init_def)
  have h2: "count_list (map book_id (books shelf)) 1 = 1"
    by (simp add: shelf_def dune_def emma_def Book_init_def)
  have f: "filter (\<lambda>b. book_id b \<noteq> 1) (books shelf) = [emma]"
    by (simp add: shelf_def dune_def emma_def Book_init_def)
  have h3: "save_books Some (disk shelf) (data_file shelf) [emma] =
       Inr (Map.empty(catalog_path \<mapsto> Regular (Some (JArr [to_dict emma]))))"
    by (simp add: save_books_def shelf_def emma_def Book_init_def encodable_def ustr_def)
  note t2 = absent_id_is_reported_only [where i = 2 and s = shelf and dump = Some
      and v = "BookStatus_value ISSUED", THEN conjunct1, THEN mp, OF h1]
  note t1 = absent_id_is_reported_only [where i = 1 and s = shelf and dump = Some,
      THEN conjunct2, THEN mp, OF h2, unfolded f]
  from t1 have r: "remove_book Some 1 shelf =
       (Inr (Removed 1),
        shelf\<lparr>books := [emma],
          disk := Map.empty(catalog_path \<mapsto> Regular (Some (JArr [to_dict emma])))\<rparr>)"
    using h3 by blast
  from h1 h2 h3 t2 t1 r show ?thesis by blast
qed

lemma set_status_first_update:
  "find (\<lambda>b. book_id b = i) bs = Some b \<Longrightarrow>
   \<exists>k < length bs. bs ! k = b \<and> book_id b = i \<and> (\<forall>j<k. book_id (bs ! j) \<noteq> i) \<and>
      set_status_first i st bs = bs[k := b\<lparr>status := st\<rparr>]"
proof (induction bs)
  case Nil
  then show ?case by simp
next
  case (Cons x xs)
  show ?case
  proof (cases "book_id x = i")
    case True
    with Cons.prems have "x = b" by simp
    with True show ?thesis by (intro exI [of _ 0]) simp
  next
    case False
    with Cons.prems have "find (\<lambda>b. book_id b = i) xs = Some b" by simp
    from Cons.IH [OF this] obtain k where k: "k < length xs" "xs ! k = b" "book_id b = i"
      "\<forall>j<k. book_id (xs ! j) \<noteq> i" "set_status_first i st xs = xs[k := b\<lparr>status := st\<rparr>]"
      by blast
    have "\<forall>j<Suc k. book_id ((x # xs) ! j) \<noteq> i"
      using False k(4) by (auto simp: nth_Cons split: nat.split)
    with k False show ?thesis by (intro exI [of _ "Suc k"]) simp
  qed
qed

lemma has_value_iff: "has_value v \<longleftrightarrow> (\<exists>st. BookStatus_call (JStr v) = Inr st \<and> BookStatus_value st = v)"
  by (auto simp: has_value_def value2member_map_def split: if_splits)

text \<open>
  Claim C6. When a Book of the collection has the id: \<open>update_status\<close> with one of the two
  status literals replaces one Book with that id by the same Book with the new status
  (its id, title, author and year are kept) and keeps every other Book of the collection;
  with any other literal the whole state is unchanged and the invalid status is reported.
\<close>

theorem update_status_frame:
  assumes "i \<in> book_id ` set (books s)"
  shows "if has_value v
         then \<exists>k st. k < length (books s) \<and> book_id (books s ! k) = i \<and> BookStatus_value st = v \<and>
                books (snd (update_status dump i v s)) = (books s)[k := (books s ! k)\<lparr>status := st\<rparr>]
         else update_status dump i v s = (Inr InvalidStatus, s)"
proof -
  from assms obtain b where b: "find (\<lambda>book. book_id book = i) (books s) = Some b"
    by (cases "find (\<lambda>book. book_id book = i) (books s)") (auto simp: find_None_iff)
  show ?thesis
  proof (cases "has_value v")
    case False
    then show ?thesis by (simp add: update_status_def b)
  next
    case True
    then obtain st where st: "BookStatus_call (JStr v) = Inr st" "BookStatus_value st = v"
      by (auto simp: has_value_iff)
    from set_status_first_update [OF b, of st] obtain k where k: "k < length (books s)"
      "books s ! k = b" "book_id b = i"
      "set_status_first i st (books s) = (books s)[k := b\<lparr>status := st\<rparr>]" by blast
    have "books (snd (update_status dump i v s)) = set_status_first i st (books s)"
      using True
      by (simp add: update_status_def b st(1) Let_def split: sum.split prod.split
          del: BookStatus_call.simps)
    with k st True show ?thesis by auto
  qed
qed

theorem update_status_frame_witness:
  "1 \<in> book_id ` set (books shelf) \<and> has_value (BookStatus_value ISSUED)
   \<and> (\<exists>k st. k < length (books shelf) \<and> book_id (books shelf ! k) = 1
         \<and> BookStatus_value st = BookStatus_value ISSUED
         \<and> books (snd (update_status Some 1 (BookStatus_value ISSUED) shelf)) =
             (books shelf)[k := (books shelf ! k)\<lparr>status := st\<rparr>])
   \<and> \<not> has_value (ustr ''lost'')
   \<and> update_status Some 1 (ustr ''lost'') shelf = (Inr InvalidStatus, shelf)"
proof -
  have h: "1 \<in> book_id ` set (books shelf)"
    by (simp add: shelf_def dune_def emma_def Book_init_def)
  have v1: "has_value (BookStatus_value ISSUED)"
    by (simp add: has_value_def value2member_map_def)
  have v2: "\<not> has_value (ustr ''lost'')"
    by (simp add: has_value_def value2member_map_def ustr_def)
  from update_status_frame [OF h, where v = "BookStatus_value ISSUED" and dump = Some]
    update_status_frame [OF h, where v = "ustr ''lost''" and dump = Some] h v1 v2
  show ?thesis by simp
qed

section \<open>Identifiers\<close>

lemma distinct_map_remove1: "distinct (map f xs) \<Longrightarrow> distinct (map f (remove1 x xs))"
  by (induction xs) (auto dest: set_remove1_subset [THEN subsetD])

lemma ids_set_status_first: "map book_id (set_status_first i st bs) = map book_id bs"
  by (induction bs) simp_all

lemma books_update_status:
  "books (snd (update_status dump i v s)) = books s \<or>
   (\<exists>st. books (snd (update_status dump i v s)) = set_status_first i st (books s))"
  by (auto simp add: update_status_def Let_def split: option.split sum.split prod.split)

text \<open>
  Claim C9. The ids of the collection being pairwise distinct is an invariant: each of
  the five operations (add, remove, search, display, update of the status) keeps it.
\<close>

theorem distinct_ids_invariant:
  assumes "distinct (map book_id (books s))"
  shows "distinct (map book_id (books (snd (exec dump c s))))"
proof (cases c)
  case (Add t a y)
  have "max_default (map book_id (books s)) 0 + 1 \<notin> book_id ` set (books s)"
    using new_id_greater [of _ s] by force
  then show ?thesis
    using assms by (simp add: Add printed_def books_add_book Book_init_def split: sum.split)
next
  case (Remove i)
  then show ?thesis
    using assms
    by (simp add: printed_def books_remove_book distinct_map_remove1 split: sum.split option.split)
next
  case (Search k)
  then show ?thesis using assms by simp
next
  case Display
  then show ?thesis using assms by (simp add: display_books_def)
next
  case (Update i v)
  then show ?thesis
    using assms books_update_status [of dump i v s]
    by (auto simp add: printed_def ids_set_status_first split: sum.split)
qed

theorem distinct_ids_invariant_witness:
  "distinct (map book_id (books shelf))
   \<and> distinct (map book_id (books (snd (exec Some (Add (ustr ''Ulysses'') (ustr ''Joyce'') 1922) shelf))))
   \<and> distinct (map book_id (books (snd (exec Some (Remove 1) shelf))))
   \<and> distinct (map book_id (books (snd (exec Some (Update 3 (BookStatus_value AVAILABLE)) shelf))))"
proof -
  have h: "distinct (map book_id (books shelf))"
    by (simp add: shelf_def dune_def emma_def Book_init_def)
  from distinct_ids_invariant [OF h, where dump = Some] h show ?thesis by blast
qed

text \<open>
  Claim C8, as the source has it. After any sequence of operations on an empty collection,
  the id that \<open>add_book\<close> assigns is greater than the id of every Book then in the
  collection, so it is the id of no present Book. The id of a removed Book can be assigned
  again: the claim that an id is never reused fails, as the run after this theorem shows.
\<close>

theorem add_book_id_above_present:
  "\<forall>b \<in> set (books (snd (run dump cs \<lparr>data_file = f, books = [], disk = d\<rparr>))).
      book_id b < book_id (last (books (snd (add_book dump t a y
         (snd (run dump cs \<lparr>data_file = f, books = [], disk = d\<rparr>))))))"
  by (auto simp: books_add_book Book_init_def intro!: max_default_ge)

theorem add_book_id_above_present_witness:
  "Book_init 1 (ustr ''Emma'') (ustr ''Austen'') 1815 AVAILABLE
     \<in> set (books (snd (run Some [Add (ustr ''Dune'') (ustr ''Herbert'') 1965, Remove 1,
        Add (ustr ''Emma'') (ustr ''Austen'') 1815] \<lparr>data_file = catalog_path, books = [], disk = Map.empty\<rparr>)))
   \<and> 1 < book_id (last (books (snd (add_book Some (ustr ''Ulysses'') (ustr ''Joyce'') 1922
        (snd (run Some [Add (ustr ''Dune'') (ustr ''Herbert'') 1965, Remove 1,
        Add (ustr ''Emma'') (ustr ''Austen'') 1815] \<lparr>data_file = catalog_path, books = [], disk = Map.empty\<rparr>))))))"
proof -
  let ?s = "snd (run Some [Add (ustr ''Dune'') (ustr ''Herbert'') 1965, Remove 1,
        Add (ustr ''Emma'') (ustr ''Austen'') 1815] \<lparr>data_file = catalog_path, books = [], disk = Map.empty\<rparr>)"
  have m: "Book_init 1 (ustr ''Emma'') (ustr ''Austen'') 1815 AVAILABLE \<in> set (books ?s)"
    by (simp add: add_book_def remove_book_def save_books_def printed_def Book_init_def Let_def
        encodable_def ustr_def)
  from add_book_id_above_present [where dump = Some and t = "ustr ''Ulysses''"
      and a = "ustr ''Joyce''" and y = 1922, THEN bspec, OF m] m
  show ?thesis by (simp add: Book_init_def)
qed

text \<open>
  On an empty collection, add, remove 1, add: the three calls print their success lines,
  and the two adds assign the same id 1.
\<close>

theorem id_reused_after_remove:
  "fst (run Some
      [Add (ustr ''Dune'') (ustr ''Herbert'') 1965, Remove 1, Add (ustr ''Emma'') (ustr ''Austen'') 1815]
      \<lparr>data_file = catalog_path, books = [], disk = Map.empty\<rparr>)
     = [Printed (Added (ustr ''Dune'') 1), Printed (Removed 1), Printed (Added (ustr ''Emma'') 1)]
   \<and> assigned_ids (fst (run Some
      [Add (ustr ''Dune'') (ustr ''Herbert'') 1965, Remove 1, Add (ustr ''Emma'') (ustr ''Austen'') 1815]
      \<lparr>data_file = catalog_path, books = [], disk = Map.empty\<rparr>)) = [1, 1]"
  by (simp add: add_book_def remove_book_def save_books_def printed_def Book_init_def Let_def
      encodable_def ustr_def)

section \<open>Saving and loading\<close>

lemma BookStatus_call_value: "BookStatus_call (JStr (BookStatus_value st)) = Inr st"
  by (cases st) (simp_all add: value2member_map_def)

lemma from_dict_to_dict: "from_dict (to_dict b) = Returns b"
  by (simp add: from_dict_def to_dict_def ustr_def BookStatus_call_value Book_init_def
      del: BookStatus_call.simps)

lemma from_dicts_to_dict: "from_dicts (map to_dict bs) = Returns bs"
  by (induction bs) (simp_all add: from_dict_to_dict)

text \<open>
  Claim C3. For every collection, when \<open>json.load\<close> reads back the document that
  \<open>json.dump\<close> wrote, \<open>save_books\<close> followed by \<open>load_books\<close> on the same path returns the
  collection itself: the same Books in the same order, each with its id, title, author,
  year and status.
\<close>

theorem save_load_round_trip:
  assumes "json_load (json_dump (JArr (map to_dict bs))) = Some (JArr (map to_dict bs))"
    and "save_books json_dump fs path bs = Inr fs'"
  shows "load_books json_load fs' path = Returns bs"
proof -
  from assms(2) have "fs' path = Some (Regular (json_dump (JArr (map to_dict bs))))"
    by (auto simp: save_books_def split: option.splits entry.splits if_splits)
  then show ?thesis
    by (simp add: load_books_def load_body_def open_r_def assms(1) from_dicts_to_dict)
qed

theorem save_load_round_trip_witness:
  "save_books Some Map.empty catalog_path [dune, emma] =
     Inr (Map.empty(catalog_path \<mapsto> Regular (Some (JArr [to_dict dune, to_dict emma]))))
   \<and> load_books (\<lambda>t. t) (Map.empty(catalog_path \<mapsto> Regular (Some (JArr [to_dict dune, to_dict emma]))))
        catalog_path = Returns [dune, emma]"
proof -
  have s: "save_books Some Map.empty catalog_path [dune, emma] =
     Inr (Map.empty(catalog_path \<mapsto> Regular (Some (JArr [to_dict dune, to_dict emma]))))"
    by (simp add: save_books_def dune_def emma_def Book_init_def encodable_def ustr_def)
  have l: "(\<lambda>t. t) (Some (JArr (map to_dict [dune, emma]))) = Some (JArr (map to_dict [dune, emma]))"
    by simp
  from save_load_round_trip [of "\<lambda>t. t" Some "[dune, emma]", OF l s] s show ?thesis by simp
qed

text \<open>
  Where \<open>save_books\<close> raises: a path in a directory that does not exist, and a title with
  a surrogate code point, which leaves the file truncated; an operation that saves there
  raises the same error.
\<close>

lemma save_books_examples:
  "save_books Some (Map.empty(catalog_path \<mapsto> No_directory)) catalog_path [emma] =
     Inl (FileNotFoundError, Map.empty(catalog_path \<mapsto> No_directory))"
  "save_books Some Map.empty catalog_path [Book_init 1 [0xD800] (ustr ''A'') 2000 AVAILABLE] =
     Inl (UnicodeEncodeError, Map.empty(catalog_path \<mapsto> Truncated))"
  "fst (remove_book Some 1 (shelf\<lparr>disk := Map.empty(catalog_path \<mapsto> No_directory)\<rparr>)) =
     Inl FileNotFoundError"
  by (simp_all add: save_books_def remove_book_def shelf_def dune_def emma_def Book_init_def
      encodable_def ustr_def)




lemma BookStatus_call_Inl:
  "v \<noteq> JStr (BookStatus_value AVAILABLE) \<Longrightarrow> v \<noteq> JStr (BookStatus_value ISSUED) \<Longrightarrow>
   BookStatus_call v = Inl ValueError"
  by (cases v) (auto simp: value2member_map_def)

lemma from_dict_KeyError:
  "find (\<lambda>k. map_of kvs k = None) required_keys = Some k \<Longrightarrow>
   from_dict (JObj kvs) = Raises (KeyError k)"
  by (auto simp: required_keys_def from_dict_def split: if_splits)

lemma from_dict_ValueError:
  "find (\<lambda>k. map_of kvs k = None) required_keys = None \<Longrightarrow>
   map_of kvs (ustr ''status'') = Some v \<Longrightarrow>
   v \<noteq> JStr (BookStatus_value AVAILABLE) \<Longrightarrow> v \<noteq> JStr (BookStatus_value ISSUED) \<Longrightarrow>
   from_dict (JObj kvs) = Raises ValueError"
  by (auto simp: required_keys_def from_dict_def BookStatus_call_Inl split: if_splits
      simp del: BookStatus_call.simps)

lemma subscript_raises: "subscript d k = Inl e \<Longrightarrow> e = TypeError \<or> e = KeyError k"
  by (cases d) (auto split: option.splits)

lemma BookStatus_call_raises: "BookStatus_call v = Inl e \<Longrightarrow> e = ValueError"
  by (cases v) (auto split: option.splits)

lemma from_dict_raises:
  "from_dict d = Raises e \<Longrightarrow> e = TypeError \<or> e = ValueError \<or> (\<exists>k. e = KeyError k)"
  unfolding from_dict_def
  by (auto split: sum.splits option.splits dest: subscript_raises BookStatus_call_raises)

lemma from_dicts_first_raise:
  "\<forall>p \<in> set pre. \<forall>e'. from_dict p \<noteq> Raises e' \<Longrightarrow> from_dict d = Raises e \<Longrightarrow>
   from_dicts (pre @ d # rest) = Raises e"
proof (induction pre)
  case Nil
  then show ?case by simp
next
  case (Cons p ps)
  then have "from_dicts (ps @ d # rest) = Raises e" by simp
  moreover have "\<forall>e'. from_dict p \<noteq> Raises e'" using Cons.prems by simp
  ultimately show ?case by (cases "from_dict p") simp_all
qed

lemma from_dicts_some_raise:
  "d \<in> set ds \<Longrightarrow> from_dict d = Raises e \<Longrightarrow> \<exists>e'. from_dicts ds = Raises e'"
proof (induction ds)
  case Nil
  then show ?case by simp
next
  case (Cons x xs)
  show ?case
  proof (cases "from_dict x")
    case (Raises e')
    then show ?thesis by simp
  next
    case (Returns b)
    with Cons have "\<exists>e'. from_dicts xs = Raises e'" by auto
    with Returns show ?thesis by auto
  next
    case Ill_typed
    with Cons have "\<exists>e'. from_dicts xs = Raises e'" by auto
    with Ill_typed show ?thesis by auto
  qed
qed

lemma from_dicts_raises:
  "from_dicts ds = Raises e \<Longrightarrow> e = TypeError \<or> e = ValueError \<or> (\<exists>k. e = KeyError k)"
proof (induction ds)
  case Nil
  then show ?case by simp
next
  case (Cons x xs)
  then show ?case
    by (cases "from_dict x"; cases "from_dicts xs") (auto dest: from_dict_raises)
qed

lemma load_books_array:
  "fs path = Some (Regular content) \<Longrightarrow> json_load content = Some (JArr ds) \<Longrightarrow>
   load_books json_load fs path = from_dicts ds"
  by (cases "from_dicts ds")
     (auto simp: load_books_def load_body_def open_r_def dest: from_dicts_raises)

text \<open>
  Claim C5, as the source has it. \<open>from_dict\<close> raises a \<open>KeyError\<close> for the first required
  key that the record lacks, and a \<open>ValueError\<close> when the five keys are there and the
  status is neither of the two literals. When the file is a JSON array, \<open>load_books\<close>
  raises the error of the first record that fails, and raises some error whenever a record
  of the array fails; it does not return the empty list. The error for an absent key is
  not of the class \<open>ValueError\<close>: the instance after this theorem shows it.
\<close>

theorem from_dict_failures:
  "(find (\<lambda>k. map_of kvs k = None) required_keys = Some k \<longrightarrow>
      from_dict (JObj kvs) = Raises (KeyError k))
   \<and> (find (\<lambda>k. map_of kvs k = None) required_keys = None \<and>
      map_of kvs (ustr ''status'') = Some v \<and>
      v \<noteq> JStr (BookStatus_value AVAILABLE) \<and> v \<noteq> JStr (BookStatus_value ISSUED) \<longrightarrow>
      from_dict (JObj kvs) = Raises ValueError)
   \<and> (fs path = Some (Regular content) \<and> json_load content = Some (JArr (pre @ d # rest)) \<and>
      (\<forall>p \<in> set pre. \<forall>e'. from_dict p \<noteq> Raises e') \<and> from_dict d = Raises e \<longrightarrow>
      load_books json_load fs path = Raises e)
   \<and> (fs path = Some (Regular content) \<and> json_load content = Some (JArr ds) \<and>
      d \<in> set ds \<and> from_dict d = Raises e \<longrightarrow>
      (\<exists>e'. load_books json_load fs path = Raises e'))"
  using from_dict_KeyError from_dict_ValueError
  by (auto simp: load_books_array from_dicts_first_raise dest: from_dicts_some_raise)

theorem from_dict_failures_witness:
  "from_dict record_without_status = Raises (KeyError (ustr ''status''))
   \<and> from_dict record_with_unknown_status = Raises ValueError
   \<and> load_books (\<lambda>t. t)
        (Map.empty(catalog_path \<mapsto> Regular (Some (JArr [to_dict dune, record_with_unknown_status, record_without_status]))))
        catalog_path = Raises ValueError
   \<and> (\<exists>e'. load_books (\<lambda>t. t)
        (Map.empty(catalog_path \<mapsto> Regular (Some (JArr [to_dict dune, record_with_unknown_status, record_without_status]))))
        catalog_path = Raises e')"
proof -
  let ?kvs1 = "[(ustr ''id'', JInt 1), (ustr ''title'', JStr (ustr ''Dune'')),
      (ustr ''author'', JStr (ustr ''Herbert'')), (ustr ''year'', JInt 1965)]"
  let ?kvs2 = "[(ustr ''id'', JInt 2), (ustr ''title'', JStr (ustr ''Emma'')),
      (ustr ''author'', JStr (ustr ''Austen'')), (ustr ''year'', JInt 1815),
      (ustr ''status'', JStr (ustr ''lost''))]"
  let ?fs = "Map.empty(catalog_path \<mapsto> Regular (Some (JArr ([to_dict dune] @ record_with_unknown_status # [record_without_status]))))"
  have a1: "find (\<lambda>k. map_of ?kvs1 k = None) required_keys = Some (ustr ''status'')"
    by (simp add: required_keys_def ustr_def)
  have a2: "find (\<lambda>k. map_of ?kvs2 k = None) required_keys = None
      \<and> map_of ?kvs2 (ustr ''status'') = Some (JStr (ustr ''lost''))
      \<and> JStr (ustr ''lost'') \<noteq> JStr (BookStatus_value AVAILABLE)
      \<and> JStr (ustr ''lost'') \<noteq> JStr (BookStatus_value ISSUED)"
    by (simp add: required_keys_def ustr_def)
  note th1 = from_dict_failures [where kvs = ?kvs1 and k = "ustr ''status''"]
  note th2 = from_dict_failures [where kvs = ?kvs2 and v = "JStr (ustr ''lost'')" and fs = ?fs
      and path = catalog_path and json_load = "\<lambda>t. t"
      and content = "Some (JArr ([to_dict dune] @ record_with_unknown_status # [record_without_status]))"
      and pre = "[to_dict dune]" and d = record_with_unknown_status
      and rest = "[record_without_status]" and e = ValueError
      and ds = "[to_dict dune] @ record_with_unknown_status # [record_without_status]"]
  have c1: "from_dict (JObj ?kvs1) = Raises (KeyError (ustr ''status''))"
    by (rule th1 [THEN conjunct1, THEN mp, OF a1])
  have c2: "from_dict (JObj ?kvs2) = Raises ValueError"
    by (rule th2 [THEN conjunct2, THEN conjunct1, THEN mp, OF a2])
  have b5: "from_dict record_with_unknown_status = Raises ValueError"
    using c2 by (simp only: record_with_unknown_status_def)
  have a3: "?fs catalog_path = Some (Regular (Some (JArr ([to_dict dune] @ record_with_unknown_status # [record_without_status]))))
      \<and> (\<lambda>t. t) (Some (JArr ([to_dict dune] @ record_with_unknown_status # [record_without_status]))) =
          Some (JArr ([to_dict dune] @ record_with_unknown_status # [record_without_status]))
      \<and> (\<forall>p \<in> set [to_dict dune]. \<forall>e'. from_dict p \<noteq> Raises e')
      \<and> from_dict record_with_unknown_status = Raises ValueError"
    using b5 by (simp add: from_dict_to_dict)
  have c3: "load_books (\<lambda>t. t) ?fs catalog_path = Raises ValueError"
    by (rule th2 [THEN conjunct2, THEN conjunct2, THEN conjunct1, THEN mp, OF a3])
  have a4: "?fs catalog_path = Some (Regular (Some (JArr ([to_dict dune] @ record_with_unknown_status # [record_without_status]))))
      \<and> (\<lambda>t. t) (Some (JArr ([to_dict dune] @ record_with_unknown_status # [record_without_status]))) =
          Some (JArr ([to_dict dune] @ record_with_unknown_status # [record_without_status]))
      \<and> record_with_unknown_status \<in> set ([to_dict dune] @ record_with_unknown_status # [record_without_status])
      \<and> from_dict record_with_unknown_status = Raises ValueError"
    using b5 by simp
  have c4: "\<exists>e'. load_books (\<lambda>t. t) ?fs catalog_path = Raises e'"
    by (rule th2 [THEN conjunct2, THEN conjunct2, THEN conjunct2, THEN mp, OF a4])
  from c1 c2 c3 c4 show ?thesis
    by (simp only: record_without_status_def record_with_unknown_status_def append.simps simp_thms)
qed

text \<open>
  A record without the key \<open>status\<close>: \<open>from_dict\<close> raises a \<open>KeyError\<close>, which is no
  \<open>ValueError\<close>.
\<close>

theorem missing_key_is_KeyError:
  "from_dict (JObj [(ustr ''id'', JInt 1), (ustr ''title'', JStr (ustr ''Dune'')),
      (ustr ''author'', JStr (ustr ''Herbert'')), (ustr ''year'', JInt 1965)])
     = Raises (KeyError (ustr ''status''))
   \<and> \<not> is_ValueError (KeyError (ustr ''status''))"
  by (simp add: from_dict_def ustr_def)

end
